theory Spec2Isabelle
  imports Complex_Main
begin

section \<open>Math Mentor AI: confidence pipeline\<close>

text \<open>
  The repository ships its Python code as listings inside
  \<^verbatim>\<open>docs/Source_Code_Documentation.md\<close>, \<^verbatim>\<open>docs/Architecture_Design.md\<close> and the
  project README. Every definition below embeds one of these listings and names it; the
  functions whose bodies are listed nowhere are modelled from the specification and say
  so.
  Python floats are idealised as \<^typ>\<open>real\<close>: rounding, overflow, NaN and infinities are
  outside the model.
\<close>

subsection \<open>Python values and exceptions\<close>

text \<open>
  The values a decoded JSON document (and the coercion code) can hold. A \<^verbatim>\<open>bool\<close> is an
  instance of \<^verbatim>\<open>int\<close> in Python, which \<open>isinstance_int_float\<close> keeps.
\<close>

datatype pyval =
    PNone
  | PBool bool
  | PInt int
  | PFloat real
  | PStr string
  | PList "pyval list"
  | PTuple "pyval list"
  | PDict "(string \<times> pyval) list"

datatype exn =
    IndexError
  | TypeError
  | ValueError
  | AttributeError
  | KeyError
  | ZeroDivisionError
  | OtherError string

type_synonym 'a result = "exn + 'a"

text \<open>\<^verbatim>\<open>isinstance(v, (list, tuple))\<close>\<close>

fun isinstance_list_tuple :: "pyval \<Rightarrow> bool" where
  "isinstance_list_tuple (PList xs) = True"
| "isinstance_list_tuple (PTuple xs) = True"
| "isinstance_list_tuple v = False"

text \<open>\<^verbatim>\<open>isinstance(v, (int, float))\<close>\<close>

fun isinstance_int_float :: "pyval \<Rightarrow> bool" where
  "isinstance_int_float (PInt i) = True"
| "isinstance_int_float (PBool b) = True"
| "isinstance_int_float (PFloat r) = True"
| "isinstance_int_float v = False"

text \<open>Truth value of a Python object, as the conditional expression tests it.\<close>

fun truthy :: "pyval \<Rightarrow> bool" where
  "truthy PNone = False"
| "truthy (PBool b) = b"
| "truthy (PInt i) = (i \<noteq> 0)"
| "truthy (PFloat r) = (r \<noteq> 0)"
| "truthy (PStr s) = (s \<noteq> [])"
| "truthy (PList xs) = (xs \<noteq> [])"
| "truthy (PTuple xs) = (xs \<noteq> [])"
| "truthy (PDict kvs) = (kvs \<noteq> [])"

text \<open>
  \<^verbatim>\<open>xs[i]\<close> on a Python sequence: a negative index counts from the end, an index out of
  range raises \<^verbatim>\<open>IndexError\<close>.
\<close>

definition seq_item :: "'a list \<Rightarrow> int \<Rightarrow> 'a result" where
  "seq_item xs i =
     (let n = int (length xs);
          j = (if i < 0 then i + n else i)
      in if j < 0 \<or> n \<le> j then Inl IndexError else Inr (xs ! nat j))"

text \<open>
  \<^verbatim>\<open>v[i]\<close> on a value with an integer \<open>i\<close>. A string gives a one-character string; a
  dictionary decoded from JSON has string keys only, so an integer key is missing; the
  other values cannot be subscripted.
\<close>

fun subscript :: "pyval \<Rightarrow> int \<Rightarrow> pyval result" where
  "subscript (PList xs) i = seq_item xs i"
| "subscript (PTuple xs) i = seq_item xs i"
| "subscript (PStr s) i = (case seq_item s i of Inl e \<Rightarrow> Inl e | Inr c \<Rightarrow> Inr (PStr [c]))"
| "subscript (PDict kvs) i = Inl KeyError"
| "subscript v i = Inl TypeError"

text \<open>
  The builtin \<^verbatim>\<open>float(v)\<close>. Parsing a string as a float literal is the interpreter's
  own work and is taken as the parameter \<open>parse_float\<close> (\<open>None\<close> where Python raises
  \<^verbatim>\<open>ValueError\<close>).
\<close>

fun py_float :: "(string \<Rightarrow> real option) \<Rightarrow> pyval \<Rightarrow> real result" where
  "py_float parse_float (PFloat r) = Inr r"
| "py_float parse_float (PInt i) = Inr (real_of_int i)"
| "py_float parse_float (PBool b) = Inr (if b then 1 else 0)"
| "py_float parse_float (PStr s) =
     (case parse_float s of None \<Rightarrow> Inl ValueError | Some r \<Rightarrow> Inr r)"
| "py_float parse_float v = Inl TypeError"

text \<open>\<^verbatim>\<open>d.get(key, default)\<close> on a dictionary.\<close>

definition dict_get :: "(string \<rightharpoonup> pyval) \<Rightarrow> string \<Rightarrow> pyval \<Rightarrow> pyval" where
  "dict_get d key dflt = (case d key of None \<Rightarrow> dflt | Some v \<Rightarrow> v)"

subsection \<open>Coercion of the self-reported confidence\<close>

text \<open>
  README, Challenge 2 (the fuller of the two listings of the same fragment;
  \<^verbatim>\<open>Source_Code_Documentation.md\<close> section 5.2 shows its first three lines):
  \<^verbatim>\<open>
  llm_conf = solution_json.get("confidence", 0.7)
  if isinstance(llm_conf, (list, tuple)):
      llm_conf = float(llm_conf[0]) if llm_conf else 0.7
  elif not isinstance(llm_conf, (int, float)):
      llm_conf = 0.7
  \<close>
  The result is the value bound to \<^verbatim>\<open>llm_conf\<close> afterwards, or the exception raised.
\<close>

definition llm_conf :: "(string \<Rightarrow> real option) \<Rightarrow> (string \<rightharpoonup> pyval) \<Rightarrow> pyval result" where
  "llm_conf parse_float solution_json =
     (let c = dict_get solution_json ''confidence'' (PFloat 0.7)
      in if isinstance_list_tuple c then
           (if truthy c then
              (case subscript c 0 of
                 Inl e \<Rightarrow> Inl e
               | Inr x \<Rightarrow> (case py_float parse_float x of
                             Inl e \<Rightarrow> Inl e
                           | Inr r \<Rightarrow> Inr (PFloat r)))
            else Inr (PFloat 0.7))
         else if \<not> isinstance_int_float c then Inr (PFloat 0.7)
         else Inr c)"

text \<open>
  The three-line listing of \<^verbatim>\<open>Source_Code_Documentation.md\<close> section 5.2, which stops
  before the \<^verbatim>\<open>elif\<close>: a value that is neither list nor tuple is left as it is.
\<close>

definition llm_conf_short :: "(string \<Rightarrow> real option) \<Rightarrow> (string \<rightharpoonup> pyval) \<Rightarrow> pyval result" where
  "llm_conf_short parse_float solution =
     (let c = dict_get solution ''confidence'' (PFloat 0.7)
      in if isinstance_list_tuple c then
           (if truthy c then
              (case subscript c 0 of
                 Inl e \<Rightarrow> Inl e
               | Inr x \<Rightarrow> (case py_float parse_float x of
                             Inl e \<Rightarrow> Inl e
                           | Inr r \<Rightarrow> Inr (PFloat r)))
            else Inr (PFloat 0.7))
         else Inr c)"

subsection \<open>The Solver's confidence score\<close>

text \<open>
  \<^verbatim>\<open>Source_Code_Documentation.md\<close>, \<^verbatim>\<open>solver_agent.py\<close>, "Confidence Calculation":
  \<^verbatim>\<open>
  confidence_factors = {
      "rag_coverage": 0.9 if has_context else 0.3,
      "citation_quality": 0.9 if has_citations else 0.4,
      "llm_confidence": float(solution.get("confidence", 0.7)),
      "has_verification": 0.9 if verified else 0.6
  }
  final_confidence = sum(confidence_factors.values()) / len(confidence_factors)
  \<close>
  A dictionary literal keeps its insertion order, so it is an association list here.
\<close>

definition factor_dict :: "real \<Rightarrow> real \<Rightarrow> real \<Rightarrow> real \<Rightarrow> (string \<times> real) list" where
  "factor_dict rag_coverage citation_quality llm_confidence has_verification =
     [(''rag_coverage'', rag_coverage),
      (''citation_quality'', citation_quality),
      (''llm_confidence'', llm_confidence),
      (''has_verification'', has_verification)]"

definition confidence_factors ::
  "(string \<Rightarrow> real option) \<Rightarrow> bool \<Rightarrow> bool \<Rightarrow> (string \<rightharpoonup> pyval) \<Rightarrow> bool
     \<Rightarrow> (string \<times> real) list result" where
  "confidence_factors parse_float has_context has_citations solution verified =
     (case py_float parse_float (dict_get solution ''confidence'' (PFloat 0.7)) of
        Inl e \<Rightarrow> Inl e
      | Inr llm \<Rightarrow>
          Inr (factor_dict (if has_context then 0.9 else 0.3)
                           (if has_citations then 0.9 else 0.4)
                           llm
                           (if verified then 0.9 else 0.6)))"

text \<open>\<^verbatim>\<open>sum(d.values()) / len(d)\<close>; the division raises on an empty dictionary.\<close>

definition final_confidence :: "(string \<times> real) list \<Rightarrow> real result" where
  "final_confidence factors =
     (if length factors = 0 then Inl ZeroDivisionError
      else Inr (sum_list (map snd factors) / real (length factors)))"

definition calculate_confidence ::
  "(string \<Rightarrow> real option) \<Rightarrow> bool \<Rightarrow> bool \<Rightarrow> (string \<rightharpoonup> pyval) \<Rightarrow> bool \<Rightarrow> real result" where
  "calculate_confidence parse_float has_context has_citations solution verified =
     (case confidence_factors parse_float has_context has_citations solution verified of
        Inl e \<Rightarrow> Inl e
      | Inr factors \<Rightarrow> final_confidence factors)"

subsection \<open>The Verifier's weighted score\<close>

text \<open>
  Modelled from the spec: \<^verbatim>\<open>VerifierAgent._calculate_final_score(factors)\<close> of
  \<^verbatim>\<open>agents/verifier_agent.py\<close> is not among the sources; only its name ("Weighted
  confidence") and the sketch in \<^verbatim>\<open>Architecture_Design.md\<close>, step 4, are:
  \<^verbatim>\<open>
  final_conf = weighted_avg(
      rag_coverage: 0.9,     # weight: 0.25
      citation_quality: 0.9, # weight: 0.20
      llm_confidence: 0.92,  # weight: 0.30
      verification: 0.95,    # weight: 0.25
  ) = 0.93
  \<close>
  The spec (section 4.6) calls it a fixed weighted mean of four sub-scores with
  configurable weights and these defaults. A weighted mean divides the weighted sum by
  the sum of the weights, and a division by zero raises.
\<close>

record weights =
  w_retrieval :: real
  w_citation :: real
  w_generative :: real
  w_verification :: real

definition default_weights :: weights where
  "default_weights =
     \<lparr>w_retrieval = 0.25, w_citation = 0.20, w_generative = 0.30, w_verification = 0.25\<rparr>"

text \<open>Pairs of a score and its weight.\<close>

definition weighted_avg :: "(real \<times> real) list \<Rightarrow> real result" where
  "weighted_avg xs =
     (if sum_list (map snd xs) = 0 then Inl ZeroDivisionError
      else Inr (sum_list (map (\<lambda>(score, weight). score * weight) xs) / sum_list (map snd xs)))"

definition calculate_final_score :: "weights \<Rightarrow> real \<Rightarrow> real \<Rightarrow> real \<Rightarrow> real \<Rightarrow> real result" where
  "calculate_final_score W rag_coverage citation_quality llm_confidence verification =
     weighted_avg [(rag_coverage, w_retrieval W),
                   (citation_quality, w_citation W),
                   (llm_confidence, w_generative W),
                   (verification, w_verification W)]"

text \<open>Weights a weighted mean can use: none negative, not all zero.\<close>

definition weights_ok :: "weights \<Rightarrow> bool" where
  "weights_ok W =
     (0 \<le> w_retrieval W \<and> 0 \<le> w_citation W \<and> 0 \<le> w_generative W \<and> 0 \<le> w_verification W
      \<and> 0 < w_retrieval W + w_citation W + w_generative W + w_verification W)"

subsection \<open>The retriever\<close>

text \<open>
  \<^verbatim>\<open>Source_Code_Documentation.md\<close>, \<^verbatim>\<open>rag/retriever.py\<close>, "Retrieval Flow":
  \<^verbatim>\<open>
  def retrieve(self, query: str, k: int = 5) -> List[Dict]:
      query_vector = self.model.encode([query])
      scores, indices = self.index.search(query_vector, k)
      results = []
      for score, idx in zip(scores[0], indices[0]):
          if score >= self.threshold:  # 0.5
              results.append({
                  "content": self.chunks[idx]["text"],
                  "source": self.chunks[idx]["source"],
                  "score": float(score)
              })
      return results
  \<close>
  The embedding model and the FAISS index are libraries: \<open>encode\<close> and the index's
  \<open>search\<close> are fields of the retriever object, and either may raise. An index that was
  not loaded is \<open>None\<close>, on which the attribute access raises.
\<close>

record chunk =
  chunk_text :: string
  chunk_source :: string

record retrieved =
  content :: string
  source :: string
  score :: real

type_synonym matrix = "real list list"

record retriever =
  encode :: "string list \<Rightarrow> matrix result"
  index :: "(matrix \<Rightarrow> int \<Rightarrow> (real list list \<times> int list list) result) option"
  chunks :: "chunk list"
  threshold :: real

text \<open>The \<^verbatim>\<open>for\<close> loop over the zipped rows, with \<^verbatim>\<open>results\<close> as accumulator.\<close>

fun retrieve_loop :: "retriever \<Rightarrow> (real \<times> int) list \<Rightarrow> retrieved list \<Rightarrow> retrieved list result" where
  "retrieve_loop R [] results = Inr results"
| "retrieve_loop R ((sc, idx) # rest) results =
     (if threshold R \<le> sc then
        (case seq_item (chunks R) idx of
           Inl e \<Rightarrow> Inl e
         | Inr ch \<Rightarrow>
             retrieve_loop R rest
               (results @ [\<lparr>content = chunk_text ch, source = chunk_source ch, score = sc\<rparr>]))
      else retrieve_loop R rest results)"

definition retrieve :: "retriever \<Rightarrow> string \<Rightarrow> int \<Rightarrow> retrieved list result" where
  "retrieve R query k =
     (case encode R [query] of
        Inl e \<Rightarrow> Inl e
      | Inr query_vector \<Rightarrow>
          (case index R of
             None \<Rightarrow> Inl AttributeError
           | Some search \<Rightarrow>
               (case search query_vector k of
                  Inl e \<Rightarrow> Inl e
                | Inr (scores, indices) \<Rightarrow>
                    (case seq_item scores 0 of
                       Inl e \<Rightarrow> Inl e
                     | Inr scores0 \<Rightarrow>
                         (case seq_item indices 0 of
                            Inl e \<Rightarrow> Inl e
                          | Inr indices0 \<Rightarrow> retrieve_loop R (zip scores0 indices0) [])))))"

text \<open>
  What FAISS promises of \<^verbatim>\<open>index.search(x, k)\<close> when it returns: a row of \<open>k\<close> scores and a
  row of \<open>k\<close> labels for the one query vector (missing neighbours are padded with label
  \<open>-1\<close>).
\<close>

definition search_shape :: "int \<Rightarrow> real list list \<times> int list list \<Rightarrow> bool" where
  "search_shape k out =
     (case out of (scores, indices) \<Rightarrow>
        length scores = 1 \<and> length indices = 1
        \<and> int (length (hd scores)) = k \<and> int (length (hd indices)) = k)"

text \<open>
  \<^verbatim>\<open>Source_Code_Documentation.md\<close> section 5.3, "RAG Fallback", in the caller:
  \<^verbatim>\<open>
  try:
      chunks = retriever.retrieve(query)
  except Exception:
      chunks = []  # Proceed without RAG
  \<close>
  The call leaves \<open>k\<close> at its default 5.
\<close>

definition rag_fallback :: "retriever \<Rightarrow> string \<Rightarrow> retrieved list" where
  "rag_fallback R query = (case retrieve R query 5 of Inl e \<Rightarrow> [] | Inr found \<Rightarrow> found)"

text \<open>Retrievers to evaluate on: three chunks; a working one, and two that are down.\<close>

definition kb_chunks :: "chunk list" where
  "kb_chunks =
     [\<lparr>chunk_text = ''Factoring: (x-a)(x-b)'', chunk_source = ''algebra.md''\<rparr>,
      \<lparr>chunk_text = ''Zero Product Property'', chunk_source = ''algebra.md''\<rparr>,
      \<lparr>chunk_text = ''Always verify roots'', chunk_source = ''jee_tips.md''\<rparr>]"

definition encode_ok :: "string list \<Rightarrow> matrix result" where
  "encode_ok texts = Inr (map (\<lambda>t. [real (length t)]) texts)"

definition encode_down :: "string list \<Rightarrow> matrix result" where
  "encode_down texts = Inl (OtherError ''embedding call failed'')"

definition search_fixed :: "matrix \<Rightarrow> int \<Rightarrow> (real list list \<times> int list list) result" where
  "search_fixed x k =
     (if k \<le> 0 then Inl (OtherError ''k > 0'')
      else Inr ([take (nat k) ([0.92, 0.88, 0.31] @ replicate (nat k - 3) (- 1))],
                [take (nat k) ([0, 1, 2] @ replicate (nat k - 3) (- 1))]))"

definition retriever_up :: retriever where
  "retriever_up =
     \<lparr>encode = encode_ok, index = Some search_fixed, chunks = kb_chunks, threshold = 0.5\<rparr>"

definition retriever_no_embedding :: retriever where
  "retriever_no_embedding =
     \<lparr>encode = encode_down, index = Some search_fixed, chunks = kb_chunks, threshold = 0.5\<rparr>"

definition retriever_no_index :: retriever where
  "retriever_no_index =
     \<lparr>encode = encode_ok, index = None, chunks = kb_chunks, threshold = 0.5\<rparr>"

subsection \<open>The Solver's fallback on a failed structured output\<close>

text \<open>
  \<^verbatim>\<open>Source_Code_Documentation.md\<close> section 5.1, in \<^verbatim>\<open>solver_agent.py\<close>:
  \<^verbatim>\<open>
  try:
      solution = self.llm.generate_json(prompt)
  except Exception as json_error:
      # Fallback to text generation
      text_response = self.llm.generate(prompt)
      solution = self._parse_text_response(text_response)
  \<close>
  The two calls of the LLM client may raise. The body of \<^verbatim>\<open>_parse_text_response\<close> is not
  listed; it is the parameter \<open>parse_text_response\<close>, which may raise as well. Nothing
  encloses the handler, so what is raised inside it leaves the fragment.
\<close>

type_synonym pydict = "string \<rightharpoonup> pyval"

record llm_client =
  generate_json :: "string \<Rightarrow> pydict result"
  generate :: "string \<Rightarrow> string result"

definition solve_fallback :: "llm_client \<Rightarrow> (string \<Rightarrow> pydict result) \<Rightarrow> string \<Rightarrow> pydict result" where
  "solve_fallback llm parse_text_response prompt =
     (case generate_json llm prompt of
        Inr solution \<Rightarrow> Inr solution
      | Inl json_error \<Rightarrow>
          (case generate llm prompt of
             Inl e \<Rightarrow> Inl e
           | Inr text_response \<Rightarrow> parse_text_response text_response))"

text \<open>
  LLM clients to evaluate on. A malformed structured output raises
  \<^verbatim>\<open>json.JSONDecodeError\<close>, a subclass of \<^verbatim>\<open>ValueError\<close>; the README (Challenge 4) reports
  that rate-limited requests fail with status 429.
\<close>

definition json_malformed :: "string \<Rightarrow> pydict result" where
  "json_malformed prompt = Inl ValueError"

definition text_rate_limited :: "string \<Rightarrow> string result" where
  "text_rate_limited prompt = Inl (OtherError ''429'')"

definition text_answer :: "string \<Rightarrow> string result" where
  "text_answer prompt = Inr ''x = 2 or x = 3''"

definition text_as_solution :: "string \<Rightarrow> pydict result" where
  "text_as_solution text_response = Inr [''solution'' \<mapsto> PStr text_response]"

definition llm_json_broken :: llm_client where
  "llm_json_broken = \<lparr>generate_json = json_malformed, generate = text_answer\<rparr>"

definition llm_unreachable :: llm_client where
  "llm_unreachable = \<lparr>generate_json = json_malformed, generate = text_rate_limited\<rparr>"

subsection \<open>The Verifier's escalation trigger\<close>

text \<open>
  \<^verbatim>\<open>Source_Code_Documentation.md\<close>, \<^verbatim>\<open>verifier_agent.py\<close>, "HITL Trigger Logic":
  \<^verbatim>\<open>
  if final_confidence < self.hitl_threshold:  # 0.70
      return {
          "verdict": "uncertain",
          "hitl_required": True,
          "question": "Please verify this solution..."
      }
  \<close>
  The listing ends there: \<open>None\<close> stands for the rest of \<^verbatim>\<open>verify\<close>, which it does not show.
\<close>

definition hitl_trigger :: "real \<Rightarrow> real \<Rightarrow> pydict option" where
  "hitl_trigger final_conf hitl_threshold =
     (if final_conf < hitl_threshold then
        Some [''verdict'' \<mapsto> PStr ''uncertain'',
              ''hitl_required'' \<mapsto> PBool True,
              ''question'' \<mapsto> PStr ''Please verify this solution...'']
      else None)"

subsection \<open>The orchestrator\<close>

text \<open>
  Modelled from the spec: \<^verbatim>\<open>run_agent_pipeline\<close> of \<^verbatim>\<open>app.py\<close> (lines 225-340 by
  \<^verbatim>\<open>Source_Code_Documentation.md\<close>) is not among the sources. The document shows an
  abridged "Key Code Pattern" of it only: the five agent calls in order, with elisions,
  on the path that reaches the Explainer. The orchestrator below follows the spec:
  section 2 ("Parser produces a structured problem, Router produces a strategy decision,
  Solver produces a candidate solution, Verifier re-checks the candidate; if confidence
  clears the threshold, Explainer formats the final answer; otherwise the pipeline halts
  with an escalation record"), section 4.3 ("flags \<^verbatim>\<open>needs_clarification = true\<close> \<dots> the
  Orchestrator halts the pipeline at this stage, returning the question to the caller
  instead of proceeding"), section 4.6 (the escalation gate, "escalated and failed are
  terminal for the automated path; passed transitions to Explainer"), section 6
  (\<^verbatim>\<open>run(raw_problem_text) -> {status: answered|clarification_needed|escalated, payload,
  trace}\<close>) and section 9 (the pipeline as the tagged-variant state machine
  \<^verbatim>\<open>Pending | Parsed | Routed | Solved | Verified | Explained | Escalated |
  ClarificationNeeded\<close>).

  The stages are parameters: what the Parser, Router, Solver and Explainer return, and
  what the Verifier's checks (steps 1 to 3 of section 4.6) find, is the agents' business.
  The Verifier's gate (step 4) is the trigger listed above, followed by the spec's
  "otherwise verdict = pass (or fail if a hard contradiction was found \<dots> hard failures
  always force review)".
\<close>

datatype stage = Parser | Router | Solver | Verifier | Explainer

record assessment =
  aggregate :: real
  issues :: "string list"
  hard_contradiction :: bool

record agents =
  parse :: "string \<Rightarrow> pydict"
  route :: "pydict \<Rightarrow> pydict"
  solve :: "pydict \<Rightarrow> pydict \<Rightarrow> pydict"
  assess :: "pydict \<Rightarrow> assessment"
  explain :: "pydict \<Rightarrow> pydict \<Rightarrow> pydict"

record orchestrator_config =
  hitl_threshold :: real

definition default_config :: orchestrator_config where
  "default_config = \<lparr>hitl_threshold = 0.70\<rparr>"

definition flag :: "pydict \<Rightarrow> string \<Rightarrow> bool" where
  "flag d key = (d key = Some (PBool True))"

definition verify :: "orchestrator_config \<Rightarrow> assessment \<Rightarrow> pydict" where
  "verify cfg a =
     (case hitl_trigger (aggregate a) (hitl_threshold cfg) of
        Some escalation \<Rightarrow> escalation
      | None \<Rightarrow>
          (if hard_contradiction a then
             [''verdict'' \<mapsto> PStr ''fail'', ''hitl_required'' \<mapsto> PBool True,
              ''final_confidence'' \<mapsto> PFloat (aggregate a)]
           else
             [''verdict'' \<mapsto> PStr ''pass'', ''hitl_required'' \<mapsto> PBool False,
              ''final_confidence'' \<mapsto> PFloat (aggregate a)]))"

datatype pipeline_state =
    Pending string
  | Parsed pydict
  | Routed pydict pydict
  | Solved pydict pydict pydict
  | Verified pydict pydict
  | Explained pydict pydict pydict
  | Escalated pydict
  | ClarificationNeeded pydict

text \<open>
  One transition of the orchestrator: the stages it invokes and the next state, or \<open>None\<close>
  in a terminal state. The two short-circuits invoke no stage.
\<close>

fun step :: "agents \<Rightarrow> orchestrator_config \<Rightarrow> pipeline_state \<Rightarrow> (stage list \<times> pipeline_state) option" where
  "step A cfg (Pending raw_text) = Some ([Parser], Parsed (parse A raw_text))"
| "step A cfg (Parsed problem) =
     (if flag problem ''needs_clarification'' then Some ([], ClarificationNeeded problem)
      else Some ([Router], Routed problem (route A problem)))"
| "step A cfg (Routed problem decision) =
     Some ([Solver], Solved problem decision (solve A problem decision))"
| "step A cfg (Solved problem decision solution) =
     Some ([Verifier], Verified solution (verify cfg (assess A solution)))"
| "step A cfg (Verified solution verification) =
     (if flag verification ''hitl_required'' then Some ([], Escalated verification)
      else Some ([Explainer],
                 Explained solution verification (explain A solution verification)))"
| "step A cfg (Explained solution verification explanation) = None"
| "step A cfg (Escalated verification) = None"
| "step A cfg (ClarificationNeeded problem) = None"

text \<open>The number of transitions a state is away from a terminal one, at most.\<close>

fun remaining :: "pipeline_state \<Rightarrow> nat" where
  "remaining (Pending raw_text) = 5"
| "remaining (Parsed problem) = 4"
| "remaining (Routed problem decision) = 3"
| "remaining (Solved problem decision solution) = 2"
| "remaining (Verified solution verification) = 1"
| "remaining st = 0"

text \<open>The orchestrator's loop: transitions until a terminal state, with the trace so far.\<close>

function run_from ::
  "agents \<Rightarrow> orchestrator_config \<Rightarrow> stage list \<Rightarrow> pipeline_state \<Rightarrow> stage list \<times> pipeline_state" where
  "run_from A cfg tr st =
     (case step A cfg st of
        None \<Rightarrow> (tr, st)
      | Some (called, st') \<Rightarrow> run_from A cfg (tr @ called) st')"
  by pat_completeness auto
termination
proof (relation "measure (\<lambda>(A, cfg, tr, st). remaining st)")
  show "wf (measure (\<lambda>(A, cfg, tr, st). remaining st))"
    by simp
next
  fix A :: agents and cfg :: orchestrator_config and tr :: "stage list"
    and st :: pipeline_state and x2 called st'
  assume "step A cfg st = Some x2" and "(called, st') = x2"
  then have "remaining st' < remaining st"
    by (cases st) (auto split: if_splits)
  then show "((A, cfg, tr @ called, st'), (A, cfg, tr, st))
      \<in> measure (\<lambda>(A, cfg, tr, st). remaining st)"
    by simp
qed

datatype run_status = answered | clarification_needed | escalated

fun outcome :: "pipeline_state \<Rightarrow> (run_status \<times> pydict) option" where
  "outcome (Explained solution verification explanation) = Some (answered, explanation)"
| "outcome (Escalated verification) = Some (escalated, verification)"
| "outcome (ClarificationNeeded problem) = Some (clarification_needed, problem)"
| "outcome st = None"

record run_result =
  status :: "run_status option"
  payload :: pydict
  trace :: "stage list"

definition run :: "agents \<Rightarrow> orchestrator_config \<Rightarrow> string \<Rightarrow> run_result" where
  "run A cfg raw_problem_text =
     (case run_from A cfg [] (Pending raw_problem_text) of
        (tr, st) \<Rightarrow>
          (case outcome st of
             Some (s, p) \<Rightarrow> \<lparr>status = Some s, payload = p, trace = tr\<rparr>
           | None \<Rightarrow> \<lparr>status = None, payload = Map.empty, trace = tr\<rparr>))"

text \<open>The states the orchestrator passes through on an input, each with its trace.\<close>

inductive reach :: "agents \<Rightarrow> orchestrator_config \<Rightarrow> string \<Rightarrow> stage list \<Rightarrow> pipeline_state \<Rightarrow> bool"
  for A cfg raw_text where
    start: "reach A cfg raw_text [] (Pending raw_text)"
  | advance: "reach A cfg raw_text tr st \<Longrightarrow> step A cfg st = Some (called, st')
             \<Longrightarrow> reach A cfg raw_text (tr @ called) st'"

text \<open>
  What holds of every state on the way: the trace names the stages run so far, the
  Router and what follows it saw a problem that needs no clarification, and the
  Explainer saw a verification that asks for no human review.
\<close>

fun on_track :: "agents \<Rightarrow> orchestrator_config \<Rightarrow> string \<Rightarrow> stage list \<Rightarrow> pipeline_state \<Rightarrow> bool" where
  "on_track A cfg raw_text tr (Pending t) = (tr = [] \<and> t = raw_text)"
| "on_track A cfg raw_text tr (Parsed problem) =
     (tr = [Parser] \<and> problem = parse A raw_text)"
| "on_track A cfg raw_text tr (ClarificationNeeded problem) =
     (tr = [Parser] \<and> problem = parse A raw_text \<and> flag problem ''needs_clarification'')"
| "on_track A cfg raw_text tr (Routed problem decision) =
     (tr = [Parser, Router] \<and> problem = parse A raw_text
      \<and> \<not> flag problem ''needs_clarification'' \<and> decision = route A problem)"
| "on_track A cfg raw_text tr (Solved problem decision solution) =
     (tr = [Parser, Router, Solver] \<and> problem = parse A raw_text
      \<and> \<not> flag problem ''needs_clarification'' \<and> decision = route A problem
      \<and> solution = solve A problem decision)"
| "on_track A cfg raw_text tr (Verified solution verification) =
     (tr = [Parser, Router, Solver, Verifier]
      \<and> \<not> flag (parse A raw_text) ''needs_clarification''
      \<and> solution = solve A (parse A raw_text) (route A (parse A raw_text))
      \<and> verification = verify cfg (assess A solution))"
| "on_track A cfg raw_text tr (Escalated verification) =
     (tr = [Parser, Router, Solver, Verifier]
      \<and> \<not> flag (parse A raw_text) ''needs_clarification''
      \<and> verification = verify cfg (assess A
            (solve A (parse A raw_text) (route A (parse A raw_text))))
      \<and> flag verification ''hitl_required'')"
| "on_track A cfg raw_text tr (Explained solution verification explanation) =
     (tr = [Parser, Router, Solver, Verifier, Explainer]
      \<and> \<not> flag (parse A raw_text) ''needs_clarification''
      \<and> solution = solve A (parse A raw_text) (route A (parse A raw_text))
      \<and> verification = verify cfg (assess A solution)
      \<and> \<not> flag verification ''hitl_required''
      \<and> explanation = explain A solution verification)"

text \<open>
  Agents to evaluate on: a parser that asks for clarification and one that does not, and a
  Verifier whose checks arrive at a given aggregate.
\<close>

definition parse_clear :: "string \<Rightarrow> pydict" where
  "parse_clear t =
     [''problem_text'' \<mapsto> PStr t, ''detected_topic'' \<mapsto> PStr ''algebra'',
      ''needs_clarification'' \<mapsto> PBool False]"

definition parse_ambiguous :: "string \<Rightarrow> pydict" where
  "parse_ambiguous t =
     [''problem_text'' \<mapsto> PStr t, ''detected_topic'' \<mapsto> PStr ''other'',
      ''needs_clarification'' \<mapsto> PBool True,
      ''clarification_question'' \<mapsto> PStr ''What should be solved?'']"

definition route_default :: "pydict \<Rightarrow> pydict" where
  "route_default problem =
     [''solver_type'' \<mapsto> PStr ''algebraic_solver'', ''use_rag'' \<mapsto> PBool True,
      ''use_calculator'' \<mapsto> PBool True, ''difficulty'' \<mapsto> PStr ''intermediate'']"

definition solve_fixed :: "pydict \<Rightarrow> pydict \<Rightarrow> pydict" where
  "solve_fixed problem decision =
     [''solution'' \<mapsto> PStr ''x = 2 or x = 3'', ''confidence'' \<mapsto> PFloat 0.5]"

definition assess_at :: "real \<Rightarrow> pydict \<Rightarrow> assessment" where
  "assess_at final_conf solution =
     \<lparr>aggregate = final_conf, issues = [], hard_contradiction = False\<rparr>"

definition explain_fixed :: "pydict \<Rightarrow> pydict \<Rightarrow> pydict" where
  "explain_fixed solution verification =
     [''final_explanation'' \<mapsto> PStr ''Factor the quadratic.'']"

definition agents_low_confidence :: agents where
  "agents_low_confidence =
     \<lparr>parse = parse_clear, route = route_default, solve = solve_fixed,
      assess = assess_at 0.5, explain = explain_fixed\<rparr>"

definition agents_ambiguous :: agents where
  "agents_ambiguous =
     \<lparr>parse = parse_ambiguous, route = route_default, solve = solve_fixed,
      assess = assess_at 0.9, explain = explain_fixed\<rparr>"

subsection \<open>The memory store\<close>

text \<open>
  \<^verbatim>\<open>Source_Code_Documentation.md\<close>, \<^verbatim>\<open>memory/memory_store.py\<close>, "Database Schema":
  \<^verbatim>\<open>
  CREATE TABLE problems (
      id TEXT PRIMARY KEY,
      problem_text TEXT,
      problem_hash TEXT,
      solution TEXT,
      confidence REAL,
      feedback TEXT,
      created_at TIMESTAMP,
      source TEXT
  );
  \<close>
  A row of the table; the table is the list of its rows in insertion order. The names carry
  a prefix where a column's name is taken already.
\<close>

record problem_row =
  row_id :: nat
  row_problem_text :: string
  problem_hash :: string
  row_solution :: string
  row_confidence :: real
  feedback :: "string option"
  created_at :: nat
  row_source :: string

record memory_store =
  problems :: "problem_row list"
  next_id :: nat

text \<open>
  Modelled from the spec: \<^verbatim>\<open>MemoryStore.save_problem\<close> of \<^verbatim>\<open>memory/memory_store.py\<close> is not
  among the sources, only its name and the schema above. The spec (section 4.2):
  "\<^verbatim>\<open>save(problem_text, solution, confidence, source_tag) -> id\<close> appends a new entry;
  idempotent by content fingerprint (re-saving identical text updates rather than
  duplicates)", and "every entry's fingerprint is a deterministic function of normalized
  problem text". The normalisation and the hash are parameters, as is the clock.
\<close>

definition fingerprint :: "(string \<Rightarrow> string) \<Rightarrow> (string \<Rightarrow> string) \<Rightarrow> string \<Rightarrow> string" where
  "fingerprint normalise digest problem_text = digest (normalise problem_text)"

text \<open>
  The row with the fingerprint is updated where there is one, else the new row is
  appended; the result is the id of the row that now holds the problem, and the rows.
\<close>

fun save_rows ::
  "string \<Rightarrow> (problem_row \<Rightarrow> problem_row) \<Rightarrow> problem_row \<Rightarrow> problem_row list
     \<Rightarrow> nat \<times> problem_row list" where
  "save_rows fp upd new [] = (row_id new, [new])"
| "save_rows fp upd new (r # rs) =
     (if problem_hash r = fp then (row_id r, upd r # rs)
      else (fst (save_rows fp upd new rs), r # snd (save_rows fp upd new rs)))"

definition save ::
  "(string \<Rightarrow> string) \<Rightarrow> (string \<Rightarrow> string) \<Rightarrow> nat \<Rightarrow> memory_store
     \<Rightarrow> string \<Rightarrow> string \<Rightarrow> real \<Rightarrow> string \<Rightarrow> nat \<times> memory_store" where
  "save normalise digest now M problem_text solution confidence source_tag =
     (let fp = fingerprint normalise digest problem_text;
          new = \<lparr>row_id = next_id M, row_problem_text = problem_text, problem_hash = fp,
                 row_solution = solution, row_confidence = confidence, feedback = None,
                 created_at = now, row_source = source_tag\<rparr>;
          upd = (\<lambda>r. r\<lparr>row_solution := solution, row_confidence := confidence,
                         row_source := source_tag\<rparr>);
          saved = save_rows fp upd new (problems M)
      in (fst saved,
          \<lparr>problems = snd saved,
           next_id = (if length (snd saved) = length (problems M) then next_id M
                      else Suc (next_id M))\<rparr>))"

text \<open>A store to evaluate on, with the removal of spaces as normalisation and the identity as hash.\<close>

definition drop_spaces :: "string \<Rightarrow> string" where
  "drop_spaces t = filter (\<lambda>c. c \<noteq> CHR '' '') t"

definition hash_id :: "string \<Rightarrow> string" where
  "hash_id t = t"

definition empty_store :: memory_store where
  "empty_store = \<lparr>problems = [], next_id = 0\<rparr>"

text \<open>A parser of float literals that accepts no string, for inputs that hold none.\<close>

definition no_float_literal :: "string \<Rightarrow> real option" where
  "no_float_literal s = None"

section \<open>Properties\<close>

subsection \<open>Coercion\<close>

lemma seq_item_nonempty_0: "xs \<noteq> [] \<Longrightarrow> seq_item xs 0 = Inr (hd xs)"
  by (cases xs) (simp_all add: seq_item_def)

lemma py_float_no_IndexError: "py_float pf v \<noteq> Inl IndexError"
  by (cases v) (simp_all split: option.splits)

lemma llm_conf_of_sequence:
  assumes "solution_json ''confidence'' = Some c" and "c = PList xs \<or> c = PTuple xs"
  shows "llm_conf pf solution_json =
           (if xs = [] then Inr (PFloat 0.7)
            else case py_float pf (hd xs) of Inl e \<Rightarrow> Inl e | Inr r \<Rightarrow> Inr (PFloat r))"
  using assms
  by (auto simp: llm_conf_def dict_get_def seq_item_nonempty_0 split: sum.splits)

lemma llm_conf_short_agrees:
  assumes "isinstance_list_tuple (dict_get solution ''confidence'' (PFloat 0.7))
         \<or> isinstance_int_float (dict_get solution ''confidence'' (PFloat 0.7))"
  shows "llm_conf_short pf solution = llm_conf pf solution"
  using assms by (auto simp: llm_conf_short_def llm_conf_def Let_def)

text \<open>
  C10. An empty list or an empty tuple in the confidence field gives the default 0.7, and
  so does a missing field; the subscript is guarded by the truth test, so the coercion
  raises \<^verbatim>\<open>IndexError\<close> on no input at all.
\<close>

theorem llm_conf_empty_default:
  "llm_conf pf (d(''confidence'' \<mapsto> PList [])) = Inr (PFloat 0.7)
   \<and> llm_conf pf (d(''confidence'' \<mapsto> PTuple [])) = Inr (PFloat 0.7)
   \<and> llm_conf pf (d(''confidence'' := None)) = Inr (PFloat 0.7)
   \<and> llm_conf pf solution_json \<noteq> Inl IndexError"
proof -
  have a: "llm_conf pf (d(''confidence'' \<mapsto> PList [])) = Inr (PFloat 0.7)"
    by (simp add: llm_conf_def dict_get_def)
  have b: "llm_conf pf (d(''confidence'' \<mapsto> PTuple [])) = Inr (PFloat 0.7)"
    by (simp add: llm_conf_def dict_get_def)
  have c: "llm_conf pf (d(''confidence'' := None)) = Inr (PFloat 0.7)"
    by (simp add: llm_conf_def dict_get_def)
  have d: "llm_conf pf solution_json \<noteq> Inl IndexError"
  proof (cases "dict_get solution_json ''confidence'' (PFloat 0.7)")
    case (PList xs)
    then show ?thesis
      using py_float_no_IndexError [of pf "hd xs"]
      by (auto simp: llm_conf_def seq_item_nonempty_0 split: sum.splits)
  next
    case (PTuple xs)
    then show ?thesis
      using py_float_no_IndexError [of pf "hd xs"]
      by (auto simp: llm_conf_def seq_item_nonempty_0 split: sum.splits)
  qed (simp_all add: llm_conf_def)
  from a b c d show ?thesis by blast
qed

text \<open>
  C5, as the claim states it, fails on the coercion: a numeric confidence is passed on
  unchanged whatever its size (nothing is clamped), an empty collection has no first
  element and gives 0.7, and a collection whose first element \<^verbatim>\<open>float\<close> rejects makes the
  coercion raise, so it is not total. The default for a non-numeric value is 0.7.
\<close>

theorem llm_conf_not_clamped_not_total:
  "llm_conf no_float_literal [''confidence'' \<mapsto> PInt 250] = Inr (PInt 250)
   \<and> llm_conf no_float_literal [''confidence'' \<mapsto> PFloat (- 3)] = Inr (PFloat (- 3))
   \<and> llm_conf no_float_literal [''confidence'' \<mapsto> PList [PFloat 1.5]] = Inr (PFloat 1.5)
   \<and> llm_conf no_float_literal [''confidence'' \<mapsto> PList [PNone]] = Inl TypeError
   \<and> llm_conf no_float_literal [''confidence'' \<mapsto> PList []] = Inr (PFloat 0.7)
   \<and> llm_conf no_float_literal [''confidence'' \<mapsto> PStr ''high''] = Inr (PFloat 0.7)"
  by (simp add: llm_conf_def dict_get_def seq_item_def)

text \<open>
  C5, amended. What the coercion does: a non-empty list or tuple is reduced to
  \<^verbatim>\<open>float\<close> of its first element whenever \<^verbatim>\<open>float\<close> accepts that element; a value that is
  neither a collection nor an \<^verbatim>\<open>int\<close> or \<^verbatim>\<open>float\<close> becomes the default 0.7; an \<^verbatim>\<open>int\<close> or
  \<^verbatim>\<open>float\<close> is passed on as it is, with no clamping.
\<close>

theorem llm_conf_coercion:
  "(py_float pf x = Inr r \<longrightarrow>
      llm_conf pf (d(''confidence'' \<mapsto> PList (x # xs))) = Inr (PFloat r)
      \<and> llm_conf pf (d(''confidence'' \<mapsto> PTuple (x # xs))) = Inr (PFloat r))
   \<and> (\<not> isinstance_list_tuple v \<and> \<not> isinstance_int_float v \<longrightarrow>
      llm_conf pf (d(''confidence'' \<mapsto> v)) = Inr (PFloat 0.7))
   \<and> (isinstance_int_float n \<longrightarrow> llm_conf pf (d(''confidence'' \<mapsto> n)) = Inr n)"
proof -
  have first: "llm_conf pf (d(''confidence'' \<mapsto> PList (x # xs))) = Inr (PFloat r)
      \<and> llm_conf pf (d(''confidence'' \<mapsto> PTuple (x # xs))) = Inr (PFloat r)"
    if "py_float pf x = Inr r"
    using that by (simp add: llm_conf_def dict_get_def seq_item_def)
  have other: "llm_conf pf (d(''confidence'' \<mapsto> v)) = Inr (PFloat 0.7)"
    if "\<not> isinstance_list_tuple v" and "\<not> isinstance_int_float v"
    using that by (simp add: llm_conf_def dict_get_def)
  have numeric: "llm_conf pf (d(''confidence'' \<mapsto> n)) = Inr n"
    if "isinstance_int_float n"
    using that by (cases n) (simp_all add: llm_conf_def dict_get_def)
  from first other numeric show ?thesis by blast
qed

theorem llm_conf_coercion_witness:
  "py_float no_float_literal (PFloat 0.95) = Inr 0.95
   \<and> llm_conf no_float_literal [''confidence'' \<mapsto> PList [PFloat 0.95, PFloat 0.2]]
       = Inr (PFloat 0.95)
   \<and> llm_conf no_float_literal [''confidence'' \<mapsto> PTuple [PFloat 0.95, PFloat 0.2]]
       = Inr (PFloat 0.95)
   \<and> \<not> isinstance_list_tuple (PStr ''high'') \<and> \<not> isinstance_int_float (PStr ''high'')
   \<and> llm_conf no_float_literal [''confidence'' \<mapsto> PStr ''high''] = Inr (PFloat 0.7)
   \<and> isinstance_int_float (PFloat 0.92)
   \<and> llm_conf no_float_literal [''confidence'' \<mapsto> PFloat 0.92] = Inr (PFloat 0.92)"
  using llm_conf_coercion [of no_float_literal "PFloat 0.95" "0.95" Map.empty "[PFloat 0.2]"
      "PStr ''high''" "PFloat 0.92"]
  by simp

subsection \<open>Aggregation\<close>

lemma final_confidence_factor_dict:
  "final_confidence (factor_dict r c g v) = Inr ((r + c + g + v) / 4)"
  by (simp add: final_confidence_def factor_dict_def)

lemma calculate_confidence_value:
  "calculate_confidence pf has_context has_citations solution verified =
     (case py_float pf (dict_get solution ''confidence'' (PFloat 0.7)) of
        Inl e \<Rightarrow> Inl e
      | Inr llm \<Rightarrow>
          Inr (((if has_context then 0.9 else 0.3) + (if has_citations then 0.9 else 0.4)
                + llm + (if verified then 0.9 else 0.6)) / 4))"
  by (simp add: calculate_confidence_def confidence_factors_def final_confidence_factor_dict
      split: sum.splits)

lemma calculate_final_score_value:
  assumes "w_retrieval W + w_citation W + w_generative W + w_verification W \<noteq> 0"
  shows "calculate_final_score W r c g v =
           Inr ((r * w_retrieval W + c * w_citation W + g * w_generative W + v * w_verification W)
                / (w_retrieval W + w_citation W + w_generative W + w_verification W))"
  using assms by (simp add: calculate_final_score_def weighted_avg_def add.assoc)

lemma weighted_sum_mono:
  fixes r c g v r' c' g' v' a b e f :: real
  assumes "r \<le> r'" "c \<le> c'" "g \<le> g'" "v \<le> v'" "0 \<le> a" "0 \<le> b" "0 \<le> e" "0 \<le> f"
  shows "r * a + c * b + g * e + v * f \<le> r' * a + c' * b + g' * e + v' * f"
proof -
  have "r * a \<le> r' * a" "c * b \<le> c' * b" "g * e \<le> g' * e" "v * f \<le> v' * f"
    using assms by (simp_all add: mult_right_mono)
  then show ?thesis by linarith
qed

text \<open>
  C8. Lowering sub-scores never raises the aggregate: if each of the four sub-scores of
  one tuple is at most the corresponding one of the other (in particular when three
  agree and one is lower), its aggregate is at most the other's. This holds for the
  unweighted mean of the Solver listing, and for the weighted mean of the Verifier under
  any weights that are not negative and not all zero.
\<close>

theorem aggregation_monotone:
  assumes "r \<le> r'" and "c \<le> c'" and "g \<le> g'" and "v \<le> v'"
  shows "(\<exists>a b. final_confidence (factor_dict r c g v) = Inr a
            \<and> final_confidence (factor_dict r' c' g' v') = Inr b \<and> a \<le> b)
       \<and> (weights_ok W \<longrightarrow>
            (\<exists>a b. calculate_final_score W r c g v = Inr a
               \<and> calculate_final_score W r' c' g' v' = Inr b \<and> a \<le> b))"
proof (intro conjI impI)
  have "(r + c + g + v) / 4 \<le> (r' + c' + g' + v') / 4"
    using assms by simp
  then show "\<exists>a b. final_confidence (factor_dict r c g v) = Inr a
            \<and> final_confidence (factor_dict r' c' g' v') = Inr b \<and> a \<le> b"
    unfolding final_confidence_factor_dict by blast
next
  assume ok: "weights_ok W"
  let ?s = "w_retrieval W + w_citation W + w_generative W + w_verification W"
  from ok have pos: "0 < ?s" and nz: "?s \<noteq> 0"
    by (simp_all add: weights_ok_def)
  have "r * w_retrieval W + c * w_citation W + g * w_generative W + v * w_verification W
      \<le> r' * w_retrieval W + c' * w_citation W + g' * w_generative W + v' * w_verification W"
    using assms ok by (intro weighted_sum_mono) (simp_all add: weights_ok_def)
  then have "(r * w_retrieval W + c * w_citation W + g * w_generative W + v * w_verification W) / ?s
      \<le> (r' * w_retrieval W + c' * w_citation W + g' * w_generative W + v' * w_verification W) / ?s"
    using pos by (simp add: divide_right_mono)
  then show "\<exists>a b. calculate_final_score W r c g v = Inr a
               \<and> calculate_final_score W r' c' g' v' = Inr b \<and> a \<le> b"
    unfolding calculate_final_score_value [OF nz] by blast
qed

theorem aggregation_monotone_witness:
  "(0.3::real) \<le> 0.9 \<and> weights_ok default_weights
   \<and> final_confidence (factor_dict 0.3 0.9 0.7 0.6) = Inr 0.625
   \<and> final_confidence (factor_dict 0.9 0.9 0.7 0.6) = Inr 0.775
   \<and> calculate_final_score default_weights 0.3 0.9 0.7 0.6 = Inr 0.615
   \<and> calculate_final_score default_weights 0.9 0.9 0.7 0.6 = Inr 0.765
   \<and> (\<exists>a b. final_confidence (factor_dict 0.3 0.9 0.7 0.6) = Inr a
          \<and> final_confidence (factor_dict 0.9 0.9 0.7 0.6) = Inr b \<and> a \<le> b)
   \<and> (\<exists>a b. calculate_final_score default_weights 0.3 0.9 0.7 0.6 = Inr a
          \<and> calculate_final_score default_weights 0.9 0.9 0.7 0.6 = Inr b \<and> a \<le> b)"
proof -
  have ok: "weights_ok default_weights"
    by (simp add: weights_ok_def default_weights_def)
  have vals: "final_confidence (factor_dict 0.3 0.9 0.7 0.6) = Inr 0.625"
    "final_confidence (factor_dict 0.9 0.9 0.7 0.6) = Inr 0.775"
    "calculate_final_score default_weights 0.3 0.9 0.7 0.6 = Inr 0.615"
    "calculate_final_score default_weights 0.9 0.9 0.7 0.6 = Inr 0.765"
    by (simp_all add: final_confidence_def factor_dict_def calculate_final_score_def
        weighted_avg_def default_weights_def)
  have "(0.3::real) \<le> 0.9" by simp
  from aggregation_monotone [OF this, of "0.9" "0.9" "0.7" "0.7" "0.6" "0.6" default_weights] ok vals
  show ?thesis by simp
qed



subsection \<open>Retrieval\<close>

lemma retrieve_loop_scores:
  "retrieve_loop R ps acc = Inr res \<Longrightarrow>
     map score res = map score acc @ filter (\<lambda>s. threshold R \<le> s) (map fst ps)"
proof (induction ps arbitrary: acc)
  case Nil
  then show ?case by simp
next
  case (Cons p ps)
  obtain sc idx where p: "p = (sc, idx)" by (cases p)
  show ?case
  proof (cases "threshold R \<le> sc")
    case True
    show ?thesis
    proof (cases "seq_item (chunks R) idx")
      case (Inl e)
      with Cons.prems p True show ?thesis by simp
    next
      case (Inr ch)
      with Cons.prems p True have "retrieve_loop R ps
         (acc @ [\<lparr>content = chunk_text ch, source = chunk_source ch, score = sc\<rparr>]) = Inr res"
        by simp
      from Cons.IH [OF this] True p show ?thesis by simp
    qed
  next
    case False
    with Cons.prems p have "retrieve_loop R ps acc = Inr res" by simp
    from Cons.IH [OF this] False p show ?thesis by simp
  qed
qed

lemma retrieve_unfold:
  assumes "retrieve R query k = Inr results"
  obtains qv search scores indices where
    "encode R [query] = Inr qv" and "index R = Some search"
    and "search qv k = Inr (scores, indices)" and "scores \<noteq> []" and "indices \<noteq> []"
    and "retrieve_loop R (zip (hd scores) (hd indices)) [] = Inr results"
proof -
  from assms obtain qv where qv: "encode R [query] = Inr qv"
    by (auto simp: retrieve_def split: sum.splits)
  from assms qv obtain search where se: "index R = Some search"
    by (auto simp: retrieve_def split: option.splits)
  from assms qv se obtain scores indices where out: "search qv k = Inr (scores, indices)"
    by (auto simp: retrieve_def split: sum.splits)
  from assms qv se out have ne: "scores \<noteq> []" "indices \<noteq> []"
    by (auto simp: retrieve_def seq_item_def split: sum.splits)
  with assms qv se out
  have "retrieve_loop R (zip (hd scores) (hd indices)) [] = Inr results"
    by (simp add: retrieve_def seq_item_nonempty_0)
  with qv se out ne show thesis by (rule that)
qed

text \<open>
  C6. Whenever \<^verbatim>\<open>retrieve(query, k)\<close> returns, every returned chunk scores at least the
  retriever's floor \<^verbatim>\<open>self.threshold\<close> (0.5 by default), and, the index search having
  returned \<open>k\<close> neighbours as FAISS does, at most \<open>k\<close> chunks are returned: they are the
  neighbours at or above the floor, in order, with nothing added in place of the dropped
  ones.
\<close>

theorem retrieve_floor_and_length:
  assumes ret: "retrieve R query k = Inr results"
    and shape: "\<And>qv search out. encode R [query] = Inr qv \<Longrightarrow> index R = Some search
                  \<Longrightarrow> search qv k = Inr out \<Longrightarrow> search_shape k out"
  shows "(\<forall>c \<in> set results. threshold R \<le> score c)
       \<and> int (length results) \<le> k
       \<and> (\<exists>qv search scores indices.
             encode R [query] = Inr qv \<and> index R = Some search
             \<and> search qv k = Inr (scores, indices)
             \<and> map score results = filter (\<lambda>s. threshold R \<le> s) (hd scores))"
proof -
  from ret obtain qv search scores indices where
    qv: "encode R [query] = Inr qv" and se: "index R = Some search"
    and out: "search qv k = Inr (scores, indices)"
    and loop: "retrieve_loop R (zip (hd scores) (hd indices)) [] = Inr results"
    by (rule retrieve_unfold)
  from shape [OF qv se out]
  have len: "int (length (hd scores)) = k" "int (length (hd indices)) = k"
    by (simp_all add: search_shape_def)
  then have same: "length (hd scores) = length (hd indices)" by linarith
  from retrieve_loop_scores [OF loop] same
  have sc: "map score results = filter (\<lambda>s. threshold R \<le> s) (hd scores)"
    by simp
  have floor: "\<forall>c \<in> set results. threshold R \<le> score c"
  proof
    fix c assume "c \<in> set results"
    then have "score c \<in> set (map score results)" by simp
    with sc show "threshold R \<le> score c" by simp
  qed
  have "length results = length (map score results)" by simp
  also have "\<dots> \<le> length (hd scores)" unfolding sc by (rule length_filter_le)
  finally have "int (length results) \<le> k" using len by linarith
  with floor sc qv se out show ?thesis by blast
qed

lemma retrieve_up_value:
  "retrieve retriever_up ''quadratic equation'' 5 =
     Inr [\<lparr>content = ''Factoring: (x-a)(x-b)'', source = ''algebra.md'', score = 0.92\<rparr>,
          \<lparr>content = ''Zero Product Property'', source = ''algebra.md'', score = 0.88\<rparr>]"
  by (simp add: retrieve_def retriever_up_def encode_ok_def search_fixed_def kb_chunks_def
      seq_item_def numeral_eq_Suc)

lemma search_fixed_shape: "search_fixed qv 5 = Inr out \<Longrightarrow> search_shape 5 out"
  by (auto simp: search_fixed_def search_shape_def numeral_eq_Suc)

theorem retrieve_floor_and_length_witness:
  "retrieve retriever_up ''quadratic equation'' 5 =
     Inr [\<lparr>content = ''Factoring: (x-a)(x-b)'', source = ''algebra.md'', score = 0.92\<rparr>,
          \<lparr>content = ''Zero Product Property'', source = ''algebra.md'', score = 0.88\<rparr>]
   \<and> threshold retriever_up = 0.5
   \<and> list_all (\<lambda>c. threshold retriever_up \<le> score c)
         [\<lparr>content = ''Factoring: (x-a)(x-b)'', source = ''algebra.md'', score = 0.92\<rparr>,
          \<lparr>content = ''Zero Product Property'', source = ''algebra.md'', score = 0.88\<rparr>]
   \<and> int (length [\<lparr>content = ''Factoring: (x-a)(x-b)'', source = ''algebra.md'', score = 0.92\<rparr>,
          \<lparr>content = ''Zero Product Property'', source = ''algebra.md'', score = (0.88::real)\<rparr>]) \<le> 5"
proof -
  let ?found = "[\<lparr>content = ''Factoring: (x-a)(x-b)'', source = ''algebra.md'', score = 0.92\<rparr>,
          \<lparr>content = ''Zero Product Property'', source = ''algebra.md'', score = (0.88::real)\<rparr>]"
  have thr: "threshold retriever_up = 0.5" by (simp add: retriever_up_def)
  have "(\<forall>c \<in> set ?found. threshold retriever_up \<le> score c)
       \<and> int (length ?found) \<le> 5
       \<and> (\<exists>qv search scores indices.
             encode retriever_up [''quadratic equation''] = Inr qv
             \<and> index retriever_up = Some search
             \<and> search qv 5 = Inr (scores, indices)
             \<and> map score ?found = filter (\<lambda>s. threshold retriever_up \<le> s) (hd scores))"
  proof (rule retrieve_floor_and_length [OF retrieve_up_value])
    fix qv search out
    assume "encode retriever_up [''quadratic equation''] = Inr qv"
      and "index retriever_up = Some search" and "search qv 5 = Inr out"
    then show "search_shape 5 out"
      using search_fixed_shape [of qv out] by (simp add: retriever_up_def)
  qed
  with retrieve_up_value thr show ?thesis by (simp add: list_all_iff)
qed

text \<open>
  C7, as the claim states it, fails on \<^verbatim>\<open>retrieve\<close>: when the embedding call raises, or the
  index is not there, \<^verbatim>\<open>retrieve\<close> itself raises and returns no sequence.
\<close>

theorem retrieve_raises_when_down:
  "retrieve retriever_no_embedding ''quadratic equation'' 5
     = Inl (OtherError ''embedding call failed'')
   \<and> retrieve retriever_no_index ''quadratic equation'' 5 = Inl AttributeError"
  by (simp add: retrieve_def retriever_no_embedding_def retriever_no_index_def
      encode_down_def encode_ok_def)

text \<open>
  C7, amended. When the embedding call fails or the index is unavailable, \<^verbatim>\<open>retrieve\<close>
  raises, and the caller's RAG fallback catches whatever \<^verbatim>\<open>retrieve\<close> raises and goes on
  with the empty list of chunks; when \<^verbatim>\<open>retrieve\<close> returns, the fallback passes its chunks
  on. Nothing is raised past the fallback.
\<close>

theorem rag_fallback_absorbs:
  "(encode R [query] = Inl e \<longrightarrow> retrieve R query 5 = Inl e \<and> rag_fallback R query = [])
   \<and> (encode R [query] = Inr qv \<and> index R = None \<longrightarrow>
        retrieve R query 5 = Inl AttributeError \<and> rag_fallback R query = [])
   \<and> (retrieve R query 5 = Inl e' \<longrightarrow> rag_fallback R query = [])
   \<and> (retrieve R query 5 = Inr found \<longrightarrow> rag_fallback R query = found)"
  by (simp add: rag_fallback_def retrieve_def)

theorem rag_fallback_absorbs_witness:
  "encode retriever_no_embedding [''quadratic equation'']
     = Inl (OtherError ''embedding call failed'')
   \<and> rag_fallback retriever_no_embedding ''quadratic equation'' = []
   \<and> encode retriever_no_index [''quadratic equation''] = Inr [[18]]
   \<and> index retriever_no_index = None
   \<and> retrieve retriever_no_index ''quadratic equation'' 5 = Inl AttributeError
   \<and> rag_fallback retriever_no_index ''quadratic equation'' = []
   \<and> rag_fallback retriever_up ''quadratic equation''
       = [\<lparr>content = ''Factoring: (x-a)(x-b)'', source = ''algebra.md'', score = 0.92\<rparr>,
          \<lparr>content = ''Zero Product Property'', source = ''algebra.md'', score = 0.88\<rparr>]"
proof -
  have a: "encode retriever_no_embedding [''quadratic equation'']
             = Inl (OtherError ''embedding call failed'')"
    by (simp add: retriever_no_embedding_def encode_down_def)
  have b: "encode retriever_no_index [''quadratic equation''] = Inr [[18]]"
    "index retriever_no_index = None"
    by (simp_all add: retriever_no_index_def encode_ok_def)
  from rag_fallback_absorbs [of retriever_no_embedding "''quadratic equation''"
      "OtherError ''embedding call failed''"] a
  have 1: "rag_fallback retriever_no_embedding ''quadratic equation'' = []" by blast
  from rag_fallback_absorbs [of retriever_no_index "''quadratic equation''" _ "[[18]]"] b
  have 2: "retrieve retriever_no_index ''quadratic equation'' 5 = Inl AttributeError"
    "rag_fallback retriever_no_index ''quadratic equation'' = []" by blast+
  from rag_fallback_absorbs [of retriever_up "''quadratic equation''"] retrieve_up_value
  have 3: "rag_fallback retriever_up ''quadratic equation''
       = [\<lparr>content = ''Factoring: (x-a)(x-b)'', source = ''algebra.md'', score = 0.92\<rparr>,
          \<lparr>content = ''Zero Product Property'', source = ''algebra.md'', score = 0.88\<rparr>]"
    by blast
  from a b 1 2 3 show ?thesis by blast
qed

subsection \<open>The Solver's fallback\<close>

text \<open>
  C3, as the claim states it, fails on the fallback: when the structured call and the
  free-text call both raise, the second exception leaves the Solver; no solution with
  confidence 0 is returned.
\<close>

theorem solve_fallback_propagates:
  "solve_fallback llm_unreachable text_as_solution ''Solve x^2 - 5x + 6 = 0''
     = Inl (OtherError ''429'')"
  by (simp add: solve_fallback_def llm_unreachable_def json_malformed_def text_rate_limited_def)

text \<open>
  C3, amended. If the structured call returns, its result is the Solver's solution. If it
  raises, the Solver falls back once to free-text generation: when the free-text call
  returns, the Solver's outcome is whatever \<^verbatim>\<open>_parse_text_response\<close> makes of the text, and
  when the free-text call raises as well, its exception is propagated.
\<close>

theorem solve_fallback_once:
  "(generate_json llm prompt = Inr solution \<longrightarrow>
      solve_fallback llm parse_text_response prompt = Inr solution)
   \<and> (generate_json llm prompt = Inl json_error \<and> generate llm prompt = Inr text_response \<longrightarrow>
        solve_fallback llm parse_text_response prompt = parse_text_response text_response)
   \<and> (generate_json llm prompt = Inl json_error \<and> generate llm prompt = Inl text_error \<longrightarrow>
        solve_fallback llm parse_text_response prompt = Inl text_error)"
  by (simp add: solve_fallback_def)

theorem solve_fallback_once_witness:
  "generate_json llm_json_broken ''Solve x^2 - 5x + 6 = 0'' = Inl ValueError
   \<and> generate llm_json_broken ''Solve x^2 - 5x + 6 = 0'' = Inr ''x = 2 or x = 3''
   \<and> solve_fallback llm_json_broken text_as_solution ''Solve x^2 - 5x + 6 = 0''
       = Inr [''solution'' \<mapsto> PStr ''x = 2 or x = 3'']
   \<and> generate_json \<lparr>generate_json = text_as_solution, generate = text_answer\<rparr> ''x = 2''
       = Inr [''solution'' \<mapsto> PStr ''x = 2'']
   \<and> solve_fallback \<lparr>generate_json = text_as_solution, generate = text_answer\<rparr>
         text_as_solution ''x = 2''
       = Inr [''solution'' \<mapsto> PStr ''x = 2'']
   \<and> generate_json llm_unreachable ''x = 2'' = Inl ValueError
   \<and> generate llm_unreachable ''x = 2'' = Inl (OtherError ''429'')
   \<and> solve_fallback llm_unreachable text_as_solution ''x = 2'' = Inl (OtherError ''429'')"
proof -
  have a: "generate_json llm_json_broken ''Solve x^2 - 5x + 6 = 0'' = Inl ValueError"
    "generate llm_json_broken ''Solve x^2 - 5x + 6 = 0'' = Inr ''x = 2 or x = 3''"
    by (simp_all add: llm_json_broken_def json_malformed_def text_answer_def)
  have b: "generate_json \<lparr>generate_json = text_as_solution, generate = text_answer\<rparr> ''x = 2''
       = Inr [''solution'' \<mapsto> PStr ''x = 2'']"
    by (simp add: text_as_solution_def)
  have c: "generate_json llm_unreachable ''x = 2'' = Inl ValueError"
    "generate llm_unreachable ''x = 2'' = Inl (OtherError ''429'')"
    by (simp_all add: llm_unreachable_def json_malformed_def text_rate_limited_def)
  from solve_fallback_once [of llm_json_broken "''Solve x^2 - 5x + 6 = 0''" _ text_as_solution
      ValueError "''x = 2 or x = 3''"] a
  have 1: "solve_fallback llm_json_broken text_as_solution ''Solve x^2 - 5x + 6 = 0''
       = Inr [''solution'' \<mapsto> PStr ''x = 2 or x = 3'']"
    by (simp add: text_as_solution_def)
  from solve_fallback_once [of "\<lparr>generate_json = text_as_solution, generate = text_answer\<rparr>"
      "''x = 2''" "[''solution'' \<mapsto> PStr ''x = 2'']" text_as_solution] b
  have 2: "solve_fallback \<lparr>generate_json = text_as_solution, generate = text_answer\<rparr>
         text_as_solution ''x = 2'' = Inr [''solution'' \<mapsto> PStr ''x = 2'']"
    by blast
  from solve_fallback_once [of llm_unreachable "''x = 2''" _ text_as_solution
      ValueError _ "OtherError ''429''"] c
  have 3: "solve_fallback llm_unreachable text_as_solution ''x = 2'' = Inl (OtherError ''429'')"
    by blast
  from a b c 1 2 3 show ?thesis by blast
qed

subsection \<open>The orchestrator\<close>

lemma hitl_trigger_below:
  "final_conf < thr \<Longrightarrow>
     \<exists>v. hitl_trigger final_conf thr = Some v
        \<and> v ''verdict'' = Some (PStr ''uncertain'') \<and> v ''hitl_required'' = Some (PBool True)"
  by (simp add: hitl_trigger_def)

lemma verify_below:
  assumes "aggregate a < hitl_threshold cfg"
  shows "verify cfg a ''verdict'' = Some (PStr ''uncertain'')"
    and "flag (verify cfg a) ''hitl_required''"
  using assms by (simp_all add: verify_def hitl_trigger_def flag_def)

lemma verify_review_iff:
  "flag (verify cfg a) ''hitl_required''
     \<longleftrightarrow> aggregate a < hitl_threshold cfg \<or> hard_contradiction a"
  by (simp add: verify_def hitl_trigger_def flag_def)

lemma step_remaining: "step A cfg st = Some (called, st') \<Longrightarrow> remaining st' < remaining st"
  by (cases st) (auto split: if_splits)

lemma step_on_track:
  assumes "on_track A cfg raw_text tr st" and "step A cfg st = Some (called, st')"
  shows "on_track A cfg raw_text (tr @ called) st'"
  using assms by (cases st) (auto split: if_splits)

lemma reach_on_track: "reach A cfg raw_text tr st \<Longrightarrow> on_track A cfg raw_text tr st"
proof (induction rule: reach.induct)
  case start
  show ?case by simp
next
  case (advance tr st called st')
  then show ?case by (blast intro: step_on_track)
qed

lemma run_from_reach:
  "reach A cfg raw_text tr st \<Longrightarrow>
     reach A cfg raw_text (fst (run_from A cfg tr st)) (snd (run_from A cfg tr st))"
proof (induction A cfg tr st rule: run_from.induct)
  case (1 A cfg tr st)
  show ?case
  proof (cases "step A cfg st")
    case None
    with "1.prems" show ?thesis by simp
  next
    case (Some nxt)
    obtain called st' where nxt: "nxt = (called, st')" by (cases nxt)
    from "1.prems" Some nxt have "reach A cfg raw_text (tr @ called) st'"
      by (auto intro: reach.advance)
    from "1.IH" [OF Some nxt [symmetric] this] Some nxt show ?thesis by simp
  qed
qed

lemma run_from_terminal: "step A cfg (snd (run_from A cfg tr st)) = None"
proof (induction A cfg tr st rule: run_from.induct)
  case (1 A cfg tr st)
  show ?case
  proof (cases "step A cfg st")
    case None
    then show ?thesis by simp
  next
    case (Some nxt)
    obtain called st' where nxt: "nxt = (called, st')" by (cases nxt)
    from "1.IH" [OF Some nxt [symmetric]] Some nxt show ?thesis by simp
  qed
qed

text \<open>
  Where a run ends: in a terminal state that is on track, so that the trace and the
  outcome are read off it.
\<close>

lemma run_end:
  obtains tr st where "run_from A cfg [] (Pending raw_text) = (tr, st)"
    and "step A cfg st = None" and "on_track A cfg raw_text tr st"
proof -
  let ?r = "run_from A cfg [] (Pending raw_text)"
  have "reach A cfg raw_text (fst ?r) (snd ?r)"
    by (rule run_from_reach) (rule reach.start)
  then have "on_track A cfg raw_text (fst ?r) (snd ?r)"
    by (rule reach_on_track)
  moreover have "step A cfg (snd ?r) = None"
    by (rule run_from_terminal)
  moreover have "?r = (fst ?r, snd ?r)" by simp
  ultimately show thesis using that by blast
qed

lemma run_answers:
  assumes "\<not> flag (parse A raw_text) ''needs_clarification''"
    and "\<not> flag (verify cfg (assess A (solve A (parse A raw_text)
            (route A (parse A raw_text))))) ''hitl_required''"
  shows "status (run A cfg raw_text) = Some answered
       \<and> trace (run A cfg raw_text) = [Parser, Router, Solver, Verifier, Explainer]"
proof -
  obtain tr st where r: "run_from A cfg [] (Pending raw_text) = (tr, st)"
    and t: "step A cfg st = None" and o: "on_track A cfg raw_text tr st"
    by (rule run_end)
  from t o assms show ?thesis
    by (cases st) (auto simp: run_def r simp del: run_from.simps split: if_splits)
qed

text \<open>
  C2. In every run in which the Verifier is reached and its checks arrive at an aggregate
  strictly below \<open>hitl_threshold\<close> (0.70 by default), the verification has verdict
  "uncertain" and \<open>hitl_required = True\<close>, the run ends with status \<open>escalated\<close> and the
  verification as payload, and the Explainer is not invoked: the trace stops at the
  Verifier.
\<close>

theorem run_escalates_below_threshold:
  assumes clear: "\<not> flag (parse A raw_text) ''needs_clarification''"
    and low: "aggregate (assess A (solve A (parse A raw_text) (route A (parse A raw_text))))
                < hitl_threshold cfg"
  shows "status (run A cfg raw_text) = Some escalated
       \<and> payload (run A cfg raw_text)
           = verify cfg (assess A (solve A (parse A raw_text) (route A (parse A raw_text))))
       \<and> payload (run A cfg raw_text) ''verdict'' = Some (PStr ''uncertain'')
       \<and> payload (run A cfg raw_text) ''hitl_required'' = Some (PBool True)
       \<and> trace (run A cfg raw_text) = [Parser, Router, Solver, Verifier]
       \<and> Explainer \<notin> set (trace (run A cfg raw_text))"
proof -
  let ?v = "verify cfg (assess A (solve A (parse A raw_text) (route A (parse A raw_text))))"
  from low have v: "?v ''verdict'' = Some (PStr ''uncertain'')" "flag ?v ''hitl_required''"
    by (rule verify_below)+
  obtain tr st where r: "run_from A cfg [] (Pending raw_text) = (tr, st)"
    and t: "step A cfg st = None" and o: "on_track A cfg raw_text tr st"
    by (rule run_end)
  from t o clear v(2) have st: "st = Escalated ?v" and tr: "tr = [Parser, Router, Solver, Verifier]"
    by (cases st; auto split: if_splits)+
  from st tr v show ?thesis
    by (simp add: run_def r flag_def del: run_from.simps)
qed

theorem run_escalates_below_threshold_witness:
  "\<not> flag (parse agents_low_confidence ''Solve x^2 - 5x + 6 = 0'') ''needs_clarification''
   \<and> aggregate (assess agents_low_confidence
        (solve agents_low_confidence (parse agents_low_confidence ''Solve x^2 - 5x + 6 = 0'')
           (route agents_low_confidence
              (parse agents_low_confidence ''Solve x^2 - 5x + 6 = 0''))))
       < hitl_threshold default_config
   \<and> status (run agents_low_confidence default_config ''Solve x^2 - 5x + 6 = 0'')
       = Some escalated
   \<and> payload (run agents_low_confidence default_config ''Solve x^2 - 5x + 6 = 0'') ''verdict''
       = Some (PStr ''uncertain'')
   \<and> trace (run agents_low_confidence default_config ''Solve x^2 - 5x + 6 = 0'')
       = [Parser, Router, Solver, Verifier]"
proof -
  have a: "\<not> flag (parse agents_low_confidence ''Solve x^2 - 5x + 6 = 0'')
             ''needs_clarification''"
    by (simp add: agents_low_confidence_def parse_clear_def flag_def)
  have b: "aggregate (assess agents_low_confidence
        (solve agents_low_confidence (parse agents_low_confidence ''Solve x^2 - 5x + 6 = 0'')
           (route agents_low_confidence
              (parse agents_low_confidence ''Solve x^2 - 5x + 6 = 0''))))
       < hitl_threshold default_config"
    by (simp add: agents_low_confidence_def assess_at_def default_config_def)
  from run_escalates_below_threshold [OF a b] a b show ?thesis by blast
qed

text \<open>
  C4. For every problem record that the Parser returns with \<open>needs_clarification = True\<close>,
  the run ends with status \<open>clarification_needed\<close> (neither answered nor escalated) and the
  record as payload, and only the Parser was invoked: Router, Solver, Verifier and
  Explainer are not.
\<close>

theorem run_halts_on_clarification:
  assumes amb: "flag (parse A raw_text) ''needs_clarification''"
  shows "status (run A cfg raw_text) = Some clarification_needed
       \<and> payload (run A cfg raw_text) = parse A raw_text
       \<and> trace (run A cfg raw_text) = [Parser]
       \<and> Router \<notin> set (trace (run A cfg raw_text))
       \<and> Solver \<notin> set (trace (run A cfg raw_text))
       \<and> Verifier \<notin> set (trace (run A cfg raw_text))
       \<and> Explainer \<notin> set (trace (run A cfg raw_text))"
proof -
  obtain tr st where r: "run_from A cfg [] (Pending raw_text) = (tr, st)"
    and t: "step A cfg st = None" and o: "on_track A cfg raw_text tr st"
    by (rule run_end)
  from t o amb have st: "st = ClarificationNeeded (parse A raw_text)" and tr: "tr = [Parser]"
    by (cases st; auto split: if_splits)+
  from st tr show ?thesis
    by (simp add: run_def r del: run_from.simps)
qed

theorem run_halts_on_clarification_witness:
  "flag (parse agents_ambiguous ''do the thing'') ''needs_clarification''
   \<and> status (run agents_ambiguous default_config ''do the thing'') = Some clarification_needed
   \<and> payload (run agents_ambiguous default_config ''do the thing'')
       = parse_ambiguous ''do the thing''
   \<and> trace (run agents_ambiguous default_config ''do the thing'') = [Parser]"
proof -
  have a: "flag (parse agents_ambiguous ''do the thing'') ''needs_clarification''"
    by (simp add: agents_ambiguous_def parse_ambiguous_def flag_def)
  have b: "parse agents_ambiguous ''do the thing'' = parse_ambiguous ''do the thing''"
    by (simp add: agents_ambiguous_def)
  from run_halts_on_clarification [OF a] a b show ?thesis by simp
qed

subsection \<open>The memory store\<close>

lemma save_rows_hashes:
  assumes "problem_hash new = fp" and "\<And>r. problem_hash (upd r) = problem_hash r"
  shows "map problem_hash (snd (save_rows fp upd new rs)) =
           (if fp \<in> set (map problem_hash rs) then map problem_hash rs
            else map problem_hash rs @ [fp])"
  using assms by (induction rs) auto

lemma save_rows_id_stable:
  assumes "problem_hash new = fp" and "problem_hash new' = fp"
    and "\<And>r. problem_hash (upd r) = problem_hash r" and "\<And>r. row_id (upd r) = row_id r"
  shows "fst (save_rows fp upd' new' (snd (save_rows fp upd new rs)))
           = fst (save_rows fp upd new rs)"
  using assms by (induction rs) auto

lemma save_rows_hit_updates:
  assumes "fp \<in> set (map problem_hash rs)" and "\<And>r. problem_hash (upd r) = problem_hash r"
  shows "\<exists>old. upd old \<in> set (snd (save_rows fp upd new rs)) \<and> problem_hash old = fp"
  using assms by (induction rs) auto

lemma count_distinct_member:
  "distinct xs \<Longrightarrow> x \<in> set xs \<Longrightarrow> length (filter (\<lambda>y. y = x) xs) = 1"
  by (induction xs) (auto simp: filter_empty_conv)

lemma save_hashes:
  "map problem_hash (problems (snd (save nm h now M t sol c tag))) =
     (if fingerprint nm h t \<in> set (map problem_hash (problems M))
      then map problem_hash (problems M)
      else map problem_hash (problems M) @ [fingerprint nm h t])"
  unfolding save_def Let_def by (simp add: save_rows_hashes)

text \<open>
  C9. The fingerprint is the hash of the normalised text, so two texts with the same
  normalisation (an identical text above all) have one fingerprint. Saving the second
  after the first returns the same id, adds no entry, and leaves the solution and the
  confidence of the second save in the entry; on a store that held no fingerprint twice,
  exactly one entry carries the fingerprint afterwards.
\<close>

theorem save_idempotent_by_fingerprint:
  assumes same: "nm t = nm t'"
    and dist: "distinct (map problem_hash (problems M))"
  shows "fingerprint nm h t' = fingerprint nm h t
       \<and> fst (save nm h now' (snd (save nm h now M t sol c tag)) t' sol' c' tag')
           = fst (save nm h now M t sol c tag)
       \<and> length (problems (snd (save nm h now' (snd (save nm h now M t sol c tag)) t' sol' c' tag')))
           = length (problems (snd (save nm h now M t sol c tag)))
       \<and> length (filter (\<lambda>r. problem_hash r = fingerprint nm h t)
            (problems (snd (save nm h now' (snd (save nm h now M t sol c tag)) t' sol' c' tag'))))
           = 1
       \<and> list_ex (\<lambda>r. problem_hash r = fingerprint nm h t \<and> row_solution r = sol'
                       \<and> row_confidence r = c' \<and> row_source r = tag')
            (problems (snd (save nm h now' (snd (save nm h now M t sol c tag)) t' sol' c' tag')))"
proof -
  let ?fp = "fingerprint nm h t"
  let ?M1 = "snd (save nm h now M t sol c tag)"
  let ?M2 = "snd (save nm h now' ?M1 t' sol' c' tag')"
  have fp: "fingerprint nm h t' = ?fp"
    using same by (simp add: fingerprint_def)
  have h1: "map problem_hash (problems ?M1) =
      (if ?fp \<in> set (map problem_hash (problems M)) then map problem_hash (problems M)
       else map problem_hash (problems M) @ [?fp])"
    by (rule save_hashes)
  then have in1: "?fp \<in> set (map problem_hash (problems ?M1))"
    by (simp split: if_splits)
  have d1: "distinct (map problem_hash (problems ?M1))"
    using dist h1 by (simp split: if_splits)
  have h2: "map problem_hash (problems ?M2) = map problem_hash (problems ?M1)"
    using save_hashes [of nm h now' ?M1 t' sol' c' tag'] in1 fp by simp
  have ids: "fst (save nm h now' ?M1 t' sol' c' tag') = fst (save nm h now M t sol c tag)"
    unfolding save_def Let_def fp by (simp add: save_rows_id_stable)
  have len: "length (problems ?M2) = length (problems ?M1)"
    using arg_cong [OF h2, of length] by simp
  have "length (filter (\<lambda>r. problem_hash r = ?fp) (problems ?M2))
      = length (filter (\<lambda>y. y = ?fp) (map problem_hash (problems ?M2)))"
    by (simp add: filter_map comp_def)
  also have "\<dots> = 1"
    unfolding h2 using d1 in1 by (rule count_distinct_member)
  finally have one: "length (filter (\<lambda>r. problem_hash r = ?fp) (problems ?M2)) = 1" .
  let ?upd = "\<lambda>r. r\<lparr>row_solution := sol', row_confidence := c', row_source := tag'\<rparr>"
  have "\<exists>old. ?upd old \<in> set (problems ?M2) \<and> problem_hash old = ?fp"
    unfolding save_def [of nm h now' ?M1] Let_def fp
    using in1 by (simp add: save_rows_hit_updates)
  then obtain old where "?upd old \<in> set (problems ?M2)" and "problem_hash old = ?fp"
    by blast
  then have upd: "list_ex (\<lambda>r. problem_hash r = ?fp \<and> row_solution r = sol'
                       \<and> row_confidence r = c' \<and> row_source r = tag') (problems ?M2)"
    unfolding list_ex_iff by (intro bexI [of _ "?upd old"]) simp_all
  from fp ids len one upd show ?thesis by blast
qed

theorem save_idempotent_by_fingerprint_witness:
  "drop_spaces ''x + 1 = 3'' = drop_spaces ''x+1=3''
   \<and> distinct (map problem_hash (problems empty_store))
   \<and> fst (save drop_spaces hash_id 2 (snd (save drop_spaces hash_id 1 empty_store
            ''x + 1 = 3'' ''x = 2'' 0.8 ''text'')) ''x+1=3'' ''x = 2'' 0.9 ''text'')
       = fst (save drop_spaces hash_id 1 empty_store ''x + 1 = 3'' ''x = 2'' 0.8 ''text'')
   \<and> length (problems (snd (save drop_spaces hash_id 2 (snd (save drop_spaces hash_id 1
            empty_store ''x + 1 = 3'' ''x = 2'' 0.8 ''text'')) ''x+1=3'' ''x = 2'' 0.9 ''text'')))
       = 1"
proof -
  have a: "drop_spaces ''x + 1 = 3'' = drop_spaces ''x+1=3''"
    by (simp add: drop_spaces_def)
  have b: "distinct (map problem_hash (problems empty_store))"
    by (simp add: empty_store_def)
  have c: "length (problems (snd (save drop_spaces hash_id 1 empty_store
            ''x + 1 = 3'' ''x = 2'' 0.8 ''text''))) = 1"
    by (simp add: save_def empty_store_def Let_def)
  from save_idempotent_by_fingerprint [where nm = drop_spaces and h = hash_id
      and t = "''x + 1 = 3''" and t' = "''x+1=3''" and M = empty_store and now = 1 and now' = 2
      and sol = "''x = 2''" and sol' = "''x = 2''" and c = "0.8" and c' = "0.9"
      and tag = "''text''" and tag' = "''text''", OF a b] a b c
  show ?thesis by simp
qed

end
